theory Spec2Isabelle
  imports Complex_Main "HOL-Library.Sublist"
begin

section \<open>JavaScript values used by the code\<close>

text \<open>
  Errors are values.  \<open>TypeError\<close> is what the runtime raises when a property is read
  from \<open>undefined\<close> or \<open>null\<close>; \<open>Error\<close> is what \<open>asStringOrThrow\<close> throws.
\<close>

datatype js_error = TypeError | Error

text \<open>
  \<open>String.prototype.endsWith\<close> and \<open>String.prototype.includes\<close> with one argument.
\<close>

definition str_endsWith :: "string \<Rightarrow> string \<Rightarrow> bool" where
  "str_endsWith s searchString =
     (length searchString \<le> length s \<and>
      drop (length s - length searchString) s = searchString)"

fun str_includes :: "string \<Rightarrow> string \<Rightarrow> bool" where
  "str_includes [] searchString = (searchString = [])"
| "str_includes (c # s) searchString =
     (prefix searchString (c # s) \<or> str_includes s searchString)"

text \<open>
  A JSON value as Prisma returns it for a \<open>Json\<close> column
  (\<open>string | number | boolean | object | array | null\<close>).  An object is the list of its
  members, whose names are distinct; a member is read with \<open>map_of\<close>.
\<close>

datatype json =
    JNull
  | JBool bool
  | JNumber real
  | JString string
  | JArray "json list"
  | JObject "(string \<times> json) list"

text \<open>JavaScript truthiness of a JSON value: \<open>null\<close>, \<open>false\<close>, \<open>0\<close> and \<open>""\<close> are falsy.\<close>

fun truthy :: "json \<Rightarrow> bool" where
  "truthy JNull = False"
| "truthy (JBool b) = b"
| "truthy (JNumber n) = (n \<noteq> 0)"
| "truthy (JString s) = (s \<noteq> [])"
| "truthy (JArray xs) = True"
| "truthy (JObject kvs) = True"

text \<open>
  Reading a member \<open>v.k\<close> of a JSON value that is not \<open>null\<close>, for a name \<open>k\<close> that no
  built-in prototype defines: the member of an object, \<open>undefined\<close> (\<open>None\<close>) otherwise.
\<close>

fun member_of :: "json \<Rightarrow> string \<Rightarrow> json option" where
  "member_of (JObject kvs) k = map_of kvs k"
| "member_of v k = None"

text \<open>
  Truthiness of a nullable string and of a nullable number, as \<open>||\<close> and \<open>!\<close> test them.
\<close>

fun truthy_string :: "string option \<Rightarrow> bool" where
  "truthy_string None = False"
| "truthy_string (Some s) = (s \<noteq> [])"

fun truthy_id :: "int option \<Rightarrow> bool" where
  "truthy_id None = False"
| "truthy_id (Some n) = (n \<noteq> 0)"

subsection \<open>Property lookup on an object literal\<close>

text \<open>
  \<open>ALL_APPS_MAP\<close> is built by an object literal, so its prototype is \<open>Object.prototype\<close>:
  \<open>ALL_APPS_MAP[name]\<close> yields the object's own property when there is one, the
  property inherited from \<open>Object.prototype\<close> when \<open>name\<close> is one of its property names,
  and \<open>undefined\<close> otherwise.  The inherited properties are built-in functions, whose
  \<open>name\<close> property is the function's name, and the accessor \<open>__proto__\<close>, which yields
  \<open>Object.prototype\<close> itself, an object with neither a \<open>name\<close> nor a \<open>type\<close>.
\<close>

datatype inherited = BuiltinFunction string | ObjectPrototype

definition Object_prototype :: "string \<Rightarrow> inherited option" where
  "Object_prototype = map_of
     [(''constructor'', BuiltinFunction ''Object''),
      (''__defineGetter__'', BuiltinFunction ''__defineGetter__''),
      (''__defineSetter__'', BuiltinFunction ''__defineSetter__''),
      (''hasOwnProperty'', BuiltinFunction ''hasOwnProperty''),
      (''__lookupGetter__'', BuiltinFunction ''__lookupGetter__''),
      (''__lookupSetter__'', BuiltinFunction ''__lookupSetter__''),
      (''isPrototypeOf'', BuiltinFunction ''isPrototypeOf''),
      (''propertyIsEnumerable'', BuiltinFunction ''propertyIsEnumerable''),
      (''toString'', BuiltinFunction ''toString''),
      (''valueOf'', BuiltinFunction ''valueOf''),
      (''__proto__'', ObjectPrototype),
      (''toLocaleString'', BuiltinFunction ''toLocaleString'')]"

datatype 'a property = Own 'a | Inherited inherited | Undefined

definition get_property :: "(string \<rightharpoonup> 'a) \<Rightarrow> string \<Rightarrow> 'a property" where
  "get_property obj name =
     (case obj name of
        Some v \<Rightarrow> Own v
      | None \<Rightarrow> (case Object_prototype name of
                   Some p \<Rightarrow> Inherited p
                 | None \<Rightarrow> Undefined))"

section \<open>The app and credential resolver\<close>

text \<open>
  An app of the catalog.  The code reads its \<open>type\<close>, \<open>name\<close> and \<open>installed\<close> fields
  (\<open>installed\<close> is optional); whatever else a catalog entry carries is the record's
  extension, so the functions below take any \<open>'a App_scheme\<close>.
\<close>

record App =
  app_type :: string
  app_name :: string
  installed :: "bool option"

text \<open>
  \<open>CredentialData\<close> is the payload selected by \<open>{ id: true, type: true }\<close>.  A caller may
  pass objects with more fields (the stored credential has a \<open>key\<close>): they are any
  \<open>'c CredentialData_scheme\<close>.
\<close>

record CredentialData =
  cred_id :: int
  cred_type :: string

text \<open>\<open>_.pick(credential, ["id", "type"])\<close>: a new object with these two fields only.\<close>

definition pick_id_type :: "'c CredentialData_scheme \<Rightarrow> CredentialData" where
  "pick_id_type credential_in =
     \<lparr>cred_id = cred_id credential_in, cred_type = cred_type credential_in\<rparr>"

text \<open>
  An entry of the result of \<open>getApps\<close>: the app's own fields (\<open>...app\<close>) with the two
  fields \<open>credential\<close> and \<open>credentials\<close> added.
\<close>

record 'a AppMeta =
  app :: "'a App_scheme"
  credential :: "CredentialData option"
  credentials :: "CredentialData list"

text \<open>
  \<open>getApps\<close>.  The catalog \<open>ALL_APPS\<close> is built from configuration modules that are not
  part of the sources at hand, so it is a parameter.  \<open>credentials[0] || null\<close> is the
  first element, or \<open>null\<close> for the empty array (an object is never falsy).
\<close>

definition getApps ::
  "'a App_scheme list \<Rightarrow> 'c CredentialData_scheme list \<Rightarrow> 'a AppMeta list" where
  "getApps ALL_APPS userCredentials =
     map (\<lambda>a.
            let creds = map pick_id_type
                          (filter (\<lambda>c. cred_type c = app_type a) userCredentials)
            in \<lparr>app = a,
                credential = (case creds of [] \<Rightarrow> None | c # _ \<Rightarrow> Some c),
                credentials = creds\<rparr>)
         ALL_APPS"

text \<open>
  \<open>!!app.installed\<close> for the optional boolean \<open>installed\<close>.
\<close>

fun is_installed :: "bool option \<Rightarrow> bool" where
  "is_installed None = False"
| "is_installed (Some b) = b"

text \<open>
  \<open>hasIntegration\<close>: \<open>!!apps.find(p)\<close>.  \<open>find\<close> yields the first app satisfying \<open>p\<close>, an
  object and so truthy, or \<open>undefined\<close>.
\<close>

definition hasIntegration :: "'a AppMeta list \<Rightarrow> string \<Rightarrow> bool" where
  "hasIntegration apps type =
     (case List.find
             (\<lambda>e. app_type (app e) = type \<and>
                  is_installed (installed (app e)) \<and>
                  (type = ''daily_video'' \<or>
                   type = ''jitsi_video'' \<or>
                   type = ''huddle01_video'' \<or>
                   length (credentials e) > 0))
             apps of
        None \<Rightarrow> False
      | Some _ \<Rightarrow> True)"

definition hasIntegrationInstalled :: "'a App_scheme list \<Rightarrow> string \<Rightarrow> bool" where
  "hasIntegrationInstalled ALL_APPS type =
     list_ex (\<lambda>a. app_type a = type \<and> is_installed (installed a)) ALL_APPS"

text \<open>
  \<open>getAppName\<close>: \<open>ALL_APPS_MAP[name].name\<close>.  The map is a parameter, as the catalog is.
  Reading \<open>.name\<close> from \<open>undefined\<close> raises a \<open>TypeError\<close>; the result \<open>None\<close> is the value
  \<open>undefined\<close>.
\<close>

definition getAppName :: "(string \<rightharpoonup> 'a App_scheme) \<Rightarrow> string \<Rightarrow> js_error + string option" where
  "getAppName ALL_APPS_MAP name =
     (case get_property ALL_APPS_MAP name of
        Own a \<Rightarrow> Inr (Some (app_name a))
      | Inherited (BuiltinFunction f) \<Rightarrow> Inr (Some f)
      | Inherited ObjectPrototype \<Rightarrow> Inr None
      | Undefined \<Rightarrow> Inl TypeError)"

text \<open>
  \<open>getAppType\<close>: \<open>ALL_APPS_MAP[name].type\<close>, then the two suffix tests in the order of
  the source.  An inherited property has no \<open>type\<close>, so \<open>type.endsWith\<close> is called on
  \<open>undefined\<close> and raises, as reading \<open>.type\<close> from \<open>undefined\<close> does.
\<close>

definition getAppType :: "(string \<rightharpoonup> 'a App_scheme) \<Rightarrow> string \<Rightarrow> js_error + string" where
  "getAppType ALL_APPS_MAP name =
     (case get_property ALL_APPS_MAP name of
        Own a \<Rightarrow>
          (let type = app_type a in
           if str_endsWith type ''_calendar'' then Inr ''Calendar''
           else if str_endsWith type ''_payment'' then Inr ''Payment''
           else Inr ''Unknown'')
      | Inherited p \<Rightarrow> Inl TypeError
      | Undefined \<Rightarrow> Inl TypeError)"

section \<open>The disposable-link page loader\<close>

subsection \<open>The request\<close>

text \<open>
  A value of \<open>context.query\<close>: a string, an array of strings, or \<open>undefined\<close> when the
  parameter is missing.  \<open>slug\<close> is read with a cast (\<open>as string\<close>) and no check; it is
  a string here.
\<close>

datatype query_value = QUndefined | QString string | QArray "string list"

record Context =
  query_link :: query_value
  query_slug :: string
  query_rescheduleUid :: query_value
  ctx_locale :: "string option"

text \<open>
  Modelled from the spec: \<open>asStringOrThrow\<close> is imported from \<open>@lib/asStringOrNull\<close>,
  which is not among the sources.  The spec describes it as the string-extraction helper
  that fails fast with a thrown error when the identifier is missing.
\<close>

fun asStringOrThrow :: "query_value \<Rightarrow> js_error + string" where
  "asStringOrThrow (QString s) = Inr s"
| "asStringOrThrow v = Inl Error"

subsection \<open>The rows of the database\<close>

text \<open>
  The event type joined to a disposable link.  The loader reads \<open>userId\<close>, \<open>metadata\<close>
  and the two period dates; the other selected fields (\<open>id\<close>, \<open>title\<close>, \<open>slug\<close>, ...)
  are copied unchanged and are the record's extension \<open>'e\<close>.  A date is its time value
  (milliseconds since the epoch).
\<close>

record EventTypeRaw =
  et_userId :: "int option"
  et_metadata :: json
  et_periodStartDate :: "int option"
  et_periodEndDate :: "int option"

text \<open>
  A disposable link, keyed by \<open>(link, slug)\<close>.  The selected fields \<open>users\<close>,
  \<open>availability\<close> and \<open>timeZone\<close> are never read by the loader and are left out.
  The loader reads \<open>disposableType?.eventType.userId\<close> with no guard on \<open>eventType\<close>, so
  the event type of a record is always there; only the record itself may be missing.
\<close>

record 'e DisposableLink =
  dl_link :: string
  dl_slug :: string
  dl_userId :: "int option"
  dl_eventType :: "'e EventTypeRaw_scheme"
  expired :: bool

record User =
  user_id :: int
  username :: "string option"
  user_name :: "string option"
  email :: string
  bio :: "string option"
  avatar :: "string option"
  theme :: "string option"
  brandColor :: string
  darkBrandColor :: string
  allowDynamicBooking :: "bool option"

text \<open>
  A stored credential: the fields \<open>id\<close>, \<open>type\<close> and \<open>key\<close> that the loader selects,
  and the owner the query filters on.  A \<open>key\<close> that is absent is \<open>JNull\<close>.
\<close>

record Credential = CredentialData +
  key :: json
  cr_userId :: "int option"

record Attendee =
  attendee_email :: string
  attendee_name :: string

record BookingRow =
  uid :: string
  b_description :: "string option"
  b_attendees :: "Attendee list"

text \<open>The projection \<open>{description, attendees: {email, name}}\<close> selected by \<open>getBooking\<close>.\<close>

record Booking =
  description :: "string option"
  attendees :: "Attendee list"

record 'e Database =
  disposableLinks :: "'e DisposableLink list"
  users :: "User list"
  credentialRows :: "Credential list"
  bookings :: "BookingRow list"

text \<open>The four queries.  Each is one fetch; the loader records the fetches it issues.\<close>

datatype fetch =
    DisposableLink_findUnique
  | User_findMany
  | Credential_findMany
  | Booking_findFirst

definition disposableLink_findUnique ::
  "'e Database \<Rightarrow> string \<Rightarrow> string \<Rightarrow> 'e DisposableLink option" where
  "disposableLink_findUnique db link slug =
     List.find (\<lambda>d. dl_link d = link \<and> dl_slug d = slug) (disposableLinks db)"

definition user_findMany :: "'e Database \<Rightarrow> int \<Rightarrow> User list" where
  "user_findMany db userId = filter (\<lambda>u. user_id u = userId) (users db)"

definition credential_findMany :: "'e Database \<Rightarrow> int list \<Rightarrow> Credential list" where
  "credential_findMany db userIds =
     filter (\<lambda>c. case cr_userId c of None \<Rightarrow> False | Some i \<Rightarrow> i \<in> set userIds)
       (credentialRows db)"

definition booking_findFirst :: "'e Database \<Rightarrow> string \<Rightarrow> Booking option" where
  "booking_findFirst db u =
     map_option (\<lambda>b. \<lparr>description = b_description b, attendees = b_attendees b\<rparr>)
       (List.find (\<lambda>b. uid b = u) (bookings db))"

subsection \<open>The result\<close>

record 'e EventTypeObject =
  eo_userId :: "int option"
  eo_metadata :: json
  isWeb3Active :: json
  eo_periodStartDate :: "string option"
  eo_periodEndDate :: "string option"
  eo_more :: 'e

record Profile =
  profile_name :: "string option"
  profile_image :: "string option"
  profile_slug :: "string option"
  profile_theme :: "string option"
  profile_brandColor :: string
  profile_darkBrandColor :: string
  profile_eventName :: "string option"

record DisposableBookingObject =
  dbo_slug :: string
  dbo_link :: string

record ('l, 't, 'e) Props =
  locationLabels :: 'l
  profile :: Profile
  eventType :: "'e EventTypeObject"
  booking :: "Booking option"
  trpcState :: 't
  isDynamicGroupBooking :: bool
  isDisposableBookingLink :: bool
  disposableBookingObject :: DisposableBookingObject

text \<open>What the loader returns: \<open>{ notFound: true }\<close> or \<open>{ props: ... }\<close>.\<close>

datatype ('l, 't, 'e) Result = NotFound | Props "('l, 't, 'e) Props"

text \<open>
  What the loader takes from code outside the sources: the location labels for a
  locale (\<open>getLocationLabels(t)\<close> with \<open>t\<close> the translation for \<open>context.locale ?? "en"\<close>),
  the dehydrated state of \<open>ssrInit\<close>, and \<open>Date.prototype.toString\<close>.
\<close>

record ('l, 't) Externals =
  getLocationLabels :: "string \<Rightarrow> 'l"
  ssr_dehydrate :: 't
  Date_toString :: "int \<Rightarrow> string"

subsection \<open>The loader\<close>

text \<open>
  \<open>disposableType?.userId || disposableType?.eventType.userId\<close>.  With no record both
  optional chains yield \<open>undefined\<close>.  With a record, the result is its \<open>userId\<close> when
  that is truthy and the \<open>userId\<close> of its event type otherwise.
\<close>

definition resolve_userId :: "'e DisposableLink option \<Rightarrow> int option" where
  "resolve_userId disposableType =
     (case disposableType of
        None \<Rightarrow> None
      | Some d \<Rightarrow>
          if truthy_id (dl_userId d) then dl_userId d
          else et_userId (dl_eventType d))"

text \<open>
  The flag \<open>isWeb3Active\<close>: \<open>credentials.find\<close> yields the first credential whose type
  includes \<open>"_web3"\<close>; with such a credential and a truthy \<open>key\<close> the flag is
  \<open>key.isWeb3Active || false\<close>, and \<open>false\<close> otherwise.
\<close>

definition web3_flag :: "Credential list \<Rightarrow> json" where
  "web3_flag creds =
     (case List.find (\<lambda>c. str_includes (cred_type c) ''_web3'') creds of
        None \<Rightarrow> JBool False
      | Some web3Credentials \<Rightarrow>
          if truthy (key web3Credentials)
          then (case member_of (key web3Credentials) ''isWeb3Active'' of
                  None \<Rightarrow> JBool False
                | Some v \<Rightarrow> if truthy v then v else JBool False)
          else JBool False)"

text \<open>
  The event type of the props: the raw event type with \<open>metadata || {}\<close>, the flag, and
  the two dates as strings (\<open>e.periodStartDate?.toString() ?? null\<close>).
\<close>

definition eventTypeObject_of ::
  "('l, 't) Externals \<Rightarrow> 'e EventTypeRaw_scheme \<Rightarrow> Credential list \<Rightarrow> 'e EventTypeObject" where
  "eventTypeObject_of ext eventTypeRaw creds =
     \<lparr>eo_userId = et_userId eventTypeRaw,
      eo_metadata = (if truthy (et_metadata eventTypeRaw) then et_metadata eventTypeRaw
                     else JObject []),
      isWeb3Active = web3_flag creds,
      eo_periodStartDate = map_option (Date_toString ext) (et_periodStartDate eventTypeRaw),
      eo_periodEndDate = map_option (Date_toString ext) (et_periodEndDate eventTypeRaw),
      eo_more = EventTypeRaw.more eventTypeRaw\<rparr>"

definition profile_of :: "User \<Rightarrow> Profile" where
  "profile_of user =
     \<lparr>profile_name = (if truthy_string (user_name user) then user_name user
                       else username user),
      profile_image = avatar user,
      profile_slug = username user,
      profile_theme = theme user,
      profile_brandColor = brandColor user,
      profile_darkBrandColor = darkBrandColor user,
      profile_eventName = None\<rparr>"

text \<open>
  The local function \<open>getBooking\<close> of the loader: one \<open>booking.findFirst\<close> on
  \<open>context.query.rescheduleUid\<close>.
\<close>

definition getBooking :: "'e Database \<Rightarrow> Context \<Rightarrow> fetch list \<times> (js_error + Booking option)" where
  "getBooking db context =
     (case asStringOrThrow (query_rescheduleUid context) of
        Inl e \<Rightarrow> ([], Inl e)
      | Inr u \<Rightarrow> ([Booking_findFirst], Inr (booking_findFirst db u)))"

text \<open>
  \<open>getServerSideProps\<close>, statement by statement.  The result is the list of fetches
  issued, in order, and what the loader returns or raises.  The calls \<open>ssrInit\<close> and
  \<open>getTranslation\<close> belong to code outside the sources; their results are taken from
  \<open>ext\<close>.  \<open>!userId\<close> holds for \<open>undefined\<close>, \<open>null\<close> and \<open>0\<close>.  The source declares
  \<open>getBooking\<close> and \<open>let booking = null\<close>, and never calls the one nor assigns the other.
  \<open>eventTypeRaw\<close> is \<open>disposableType?.eventType\<close>, which the source tests for absence.
\<close>

definition getServerSideProps ::
  "('l, 't) Externals \<Rightarrow> 'e Database \<Rightarrow> Context \<Rightarrow>
     fetch list \<times> (js_error + ('l, 't, 'e) Result)" where
  "getServerSideProps ext db context =
     (case asStringOrThrow (query_link context) of
        Inl e \<Rightarrow> ([], Inl e)
      | Inr link \<Rightarrow>
         let slug = query_slug context;
             disposableType = disposableLink_findUnique db link slug;
             linkExpired = (case disposableType of None \<Rightarrow> False | Some d \<Rightarrow> expired d)
         in
         if linkExpired then ([DisposableLink_findUnique], Inr NotFound)
         else
          (let userId = resolve_userId disposableType in
           case userId of
             None \<Rightarrow> ([DisposableLink_findUnique], Inr NotFound)
           | Some userId_value \<Rightarrow>
              if userId_value = 0 then ([DisposableLink_findUnique], Inr NotFound)
              else
               (let users_found = user_findMany db userId_value in
                case users_found of
                  [] \<Rightarrow> ([DisposableLink_findUnique, User_findMany], Inr NotFound)
                | user # _ \<Rightarrow>
                   (case map_option dl_eventType disposableType of
                      None \<Rightarrow> ([DisposableLink_findUnique, User_findMany], Inr NotFound)
                    | Some eventTypeRaw \<Rightarrow>
                       let creds = credential_findMany db (map user_id users_found);
                           eventTypeObject = eventTypeObject_of ext eventTypeRaw creds;
                           disposableBookingObject = \<lparr>dbo_slug = slug, dbo_link = link\<rparr>;
                           booking_var = None;
                           t_locale = (case ctx_locale context of None \<Rightarrow> ''en'' | Some l \<Rightarrow> l)
                       in ([DisposableLink_findUnique, User_findMany, Credential_findMany],
                           Inr (Props
                             \<lparr>locationLabels = getLocationLabels ext t_locale,
                              profile = profile_of user,
                              eventType = eventTypeObject,
                              booking = booking_var,
                              trpcState = ssr_dehydrate ext,
                              isDynamicGroupBooking = False,
                              isDisposableBookingLink = True,
                              disposableBookingObject = disposableBookingObject\<rparr>))))))"

text \<open>The props of a run of the loader, when it returned props.\<close>

fun props_of :: "fetch list \<times> (js_error + ('l, 't, 'e) Result) \<Rightarrow> ('l, 't, 'e) Props option" where
  "props_of (tr, Inr (Props p)) = Some p"
| "props_of (tr, r) = None"

section \<open>Sample data\<close>

text \<open>A small catalog, its map by name, and the stored credentials of three users.\<close>

definition google_calendar_app :: App where
  "google_calendar_app =
     \<lparr>app_type = ''google_calendar'', app_name = ''Google Calendar'', installed = Some True\<rparr>"

definition stripe_payment_app :: App where
  "stripe_payment_app =
     \<lparr>app_type = ''stripe_payment'', app_name = ''Stripe'', installed = Some True\<rparr>"

definition zoom_video_app :: App where
  "zoom_video_app =
     \<lparr>app_type = ''zoom_video'', app_name = ''Zoom Video'', installed = Some True\<rparr>"

definition daily_video_app :: App where
  "daily_video_app =
     \<lparr>app_type = ''daily_video'', app_name = ''Daily.co Video'', installed = Some True\<rparr>"

definition sample_apps :: "App list" where
  "sample_apps = [google_calendar_app, stripe_payment_app, zoom_video_app, daily_video_app]"

definition sample_apps_map :: "string \<rightharpoonup> App" where
  "sample_apps_map =
     [''google_calendar'' \<mapsto> google_calendar_app,
      ''stripe_payment'' \<mapsto> stripe_payment_app,
      ''zoom_video'' \<mapsto> zoom_video_app,
      ''daily_video'' \<mapsto> daily_video_app]"

definition sample_credentials :: "Credential list" where
  "sample_credentials =
     [\<lparr>cred_id = 1, cred_type = ''google_calendar'',
       key = JObject [(''access_token'', JString ''secret'')], cr_userId = Some 7\<rparr>,
      \<lparr>cred_id = 2, cred_type = ''metamask_web3'', key = JNull, cr_userId = Some 7\<rparr>,
      \<lparr>cred_id = 3, cred_type = ''acme_web3'',
       key = JObject [(''isWeb3Active'', JBool True)], cr_userId = Some 7\<rparr>,
      \<lparr>cred_id = 4, cred_type = ''acme_web3'',
       key = JObject [(''isWeb3Active'', JBool True)], cr_userId = Some 8\<rparr>,
      \<lparr>cred_id = 5, cred_type = ''google_calendar'', key = JNull, cr_userId = Some 8\<rparr>,
      \<lparr>cred_id = 6, cred_type = ''stripe_payment'', key = JNull, cr_userId = Some 9\<rparr>]"

text \<open>
  A database with five links: a live one for each of the users 7, 8 and 9, an expired
  one, and one whose user id is missing on the link and on its event type.
\<close>

definition sample_user :: "int \<Rightarrow> string \<Rightarrow> User" where
  "sample_user i n =
     \<lparr>user_id = i, username = Some n, user_name = None, email = n @ ''@example.com'',
      bio = None, avatar = None, theme = None, brandColor = ''#292929'',
      darkBrandColor = ''#fafafa'', allowDynamicBooking = Some True\<rparr>"

definition sample_eventType :: "int \<Rightarrow> EventTypeRaw" where
  "sample_eventType i =
     \<lparr>et_userId = Some i, et_metadata = JNull,
      et_periodStartDate = None, et_periodEndDate = Some 0\<rparr>"

definition sample_db :: "unit Database" where
  "sample_db =
     \<lparr>disposableLinks =
        [\<lparr>dl_link = ''abc123'', dl_slug = ''intro'', dl_userId = Some 7,
          dl_eventType = sample_eventType 7, expired = False\<rparr>,
         \<lparr>dl_link = ''def456'', dl_slug = ''demo'', dl_userId = None,
          dl_eventType = sample_eventType 8, expired = False\<rparr>,
         \<lparr>dl_link = ''ghi789'', dl_slug = ''call'', dl_userId = Some 9,
          dl_eventType = sample_eventType 9, expired = False\<rparr>,
         \<lparr>dl_link = ''old000'', dl_slug = ''intro'', dl_userId = Some 7,
          dl_eventType = sample_eventType 7, expired = True\<rparr>,
         \<lparr>dl_link = ''orphan'', dl_slug = ''intro'', dl_userId = None,
          dl_eventType = \<lparr>et_userId = None, et_metadata = JNull,
                           et_periodStartDate = None, et_periodEndDate = None\<rparr>,
          expired = False\<rparr>],
      users = [sample_user 7 ''alice'', sample_user 8 ''bob'', sample_user 9 ''carol''],
      credentialRows = sample_credentials,
      bookings =
        [\<lparr>uid = ''resched-1'', b_description = Some ''Intro call'',
          b_attendees = [\<lparr>attendee_email = ''dave@example.com'', attendee_name = ''Dave''\<rparr>]\<rparr>]\<rparr>"

definition sample_ext :: "(string list, string) Externals" where
  "sample_ext =
     \<lparr>getLocationLabels = (\<lambda>l. [l]), ssr_dehydrate = ''{}'',
      Date_toString = (\<lambda>d. ''Thu Jan 01 1970'')\<rparr>"

definition sample_context :: "string \<Rightarrow> string \<Rightarrow> query_value \<Rightarrow> Context" where
  "sample_context l s r =
     \<lparr>query_link = QString l, query_slug = s, query_rescheduleUid = r, ctx_locale = None\<rparr>"


section \<open>Library facts about the modelled primitives\<close>

text \<open>
  The two string tests are the library's \<open>suffix\<close> and \<open>sublist\<close>; \<open>find\<close> succeeds
  exactly when some element satisfies the predicate.
\<close>

lemma str_endsWith_suffix: "str_endsWith s t \<longleftrightarrow> suffix t s"
proof
  assume "str_endsWith s t"
  then have "s = take (length s - length t) s @ t"
    by (metis append_take_drop_id str_endsWith_def)
  then show "suffix t s" by (metis suffixI)
next
  assume "suffix t s"
  then obtain p where "s = p @ t" by (auto simp: suffix_def)
  then show "str_endsWith s t" by (simp add: str_endsWith_def)
qed

lemma str_includes_sublist: "str_includes s t \<longleftrightarrow> sublist t s"
  by (induction s) (simp_all add: sublist_Cons_right)

lemma find_defined_iff:
  "(case List.find P xs of None \<Rightarrow> False | Some _ \<Rightarrow> True) \<longleftrightarrow> (\<exists>x \<in> set xs. P x)"
  by (induction xs) auto

lemma find_first_match:
  "\<not> list_ex P pre \<Longrightarrow> P c \<Longrightarrow> List.find P (pre @ c # rest) = Some c"
  by (induction pre) auto

lemma is_installed_iff: "is_installed x \<longleftrightarrow> x = Some True"
  by (cases x) auto

lemma Object_prototype_dom:
  "Object_prototype name = None \<longleftrightarrow>
     name \<notin> {''constructor'', ''__defineGetter__'', ''__defineSetter__'', ''hasOwnProperty'',
             ''__lookupGetter__'', ''__lookupSetter__'', ''isPrototypeOf'',
             ''propertyIsEnumerable'', ''toString'', ''valueOf'', ''__proto__'',
             ''toLocaleString''}"
  by (simp add: Object_prototype_def)

section \<open>The resolver\<close>

text \<open>
  C3.  For every catalog and every list of user credentials, \<open>getApps\<close> returns one entry
  per catalog app, in catalog order (the entries' apps are the catalog itself); the
  \<open>credentials\<close> of the entry of an app are the input credentials whose type equals the
  app's type, in input order, each reduced to its \<open>id\<close> and \<open>type\<close>.
\<close>

theorem getApps_entries:
  "length (getApps ALL_APPS userCredentials) = length ALL_APPS \<and>
   map app (getApps ALL_APPS userCredentials) = ALL_APPS \<and>
   map credentials (getApps ALL_APPS userCredentials) =
     map (\<lambda>a. map (\<lambda>c. \<lparr>cred_id = cred_id c, cred_type = cred_type c\<rparr>)
                (filter (\<lambda>c. cred_type c = app_type a) userCredentials))
       ALL_APPS"
  by (simp add: getApps_def Let_def pick_id_type_def comp_def)

text \<open>
  C8.  In every entry returned by \<open>getApps\<close>, the field \<open>credential\<close> is the first
  element of \<open>credentials\<close> when that list is not empty, and \<open>null\<close> when it is.
\<close>

theorem getApps_credential:
  "e \<in> set (getApps ALL_APPS userCredentials) \<Longrightarrow>
     (credentials e = [] \<longrightarrow> credential e = None) \<and>
     (credentials e \<noteq> [] \<longrightarrow> credential e = Some (hd (credentials e)))"
  by (auto simp: getApps_def Let_def split: list.splits)

theorem getApps_credential_witness:
  "(let e = \<lparr>app = google_calendar_app,
              credential = Some \<lparr>cred_id = 1, cred_type = ''google_calendar''\<rparr>,
              credentials = [\<lparr>cred_id = 1, cred_type = ''google_calendar''\<rparr>,
                             \<lparr>cred_id = 5, cred_type = ''google_calendar''\<rparr>]\<rparr>
    in e \<in> set (getApps sample_apps sample_credentials) \<and>
       credentials e \<noteq> [] \<and> credential e = Some (hd (credentials e))) \<and>
   (let e = \<lparr>app = zoom_video_app, credential = None, credentials = []\<rparr>
    in e \<in> set (getApps sample_apps sample_credentials) \<and>
       credentials e = [] \<and> credential e = None)"
proof -
  let ?e1 = "\<lparr>app = google_calendar_app,
              credential = Some \<lparr>cred_id = 1, cred_type = ''google_calendar''\<rparr>,
              credentials = [\<lparr>cred_id = 1, cred_type = ''google_calendar''\<rparr>,
                             \<lparr>cred_id = 5, cred_type = ''google_calendar''\<rparr>]\<rparr>"
  let ?e2 = "\<lparr>app = zoom_video_app, credential = None, credentials = []\<rparr>"
  have m1: "?e1 \<in> set (getApps sample_apps sample_credentials)"
    by (simp add: getApps_def sample_apps_def sample_credentials_def pick_id_type_def
        google_calendar_app_def stripe_payment_app_def zoom_video_app_def daily_video_app_def)
  have m2: "?e2 \<in> set (getApps sample_apps sample_credentials)"
    by (simp add: getApps_def sample_apps_def sample_credentials_def pick_id_type_def
        google_calendar_app_def stripe_payment_app_def zoom_video_app_def daily_video_app_def)
  from getApps_credential [OF m1] getApps_credential [OF m2] m1 m2
  show ?thesis by (simp add: Let_def)
qed

text \<open>
  C4.  \<open>hasIntegration apps type\<close> is true exactly when some app of \<open>apps\<close> has this type,
  is marked installed, and either the type is one of \<open>daily_video\<close>, \<open>jitsi_video\<close>,
  \<open>huddle01_video\<close> or the app's \<open>credentials\<close> list is not empty.
\<close>

theorem hasIntegration_iff:
  "hasIntegration apps type \<longleftrightarrow>
     (\<exists>e \<in> set apps.
        app_type (app e) = type \<and> installed (app e) = Some True \<and>
        (type \<in> {''daily_video'', ''jitsi_video'', ''huddle01_video''} \<or>
         credentials e \<noteq> []))"
  unfolding hasIntegration_def find_defined_iff
  by (simp add: is_installed_iff)

theorem hasIntegration_iff_witness:
  "hasIntegration [\<lparr>app = daily_video_app, credential = None, credentials = []\<rparr>] ''daily_video'' \<and>
   \<not> hasIntegration [\<lparr>app = zoom_video_app, credential = None, credentials = []\<rparr>] ''zoom_video'' \<and>
   hasIntegration
     [\<lparr>app = zoom_video_app,
       credential = Some \<lparr>cred_id = 9, cred_type = ''zoom_video''\<rparr>,
       credentials = [\<lparr>cred_id = 9, cred_type = ''zoom_video''\<rparr>]\<rparr>] ''zoom_video''"
  using hasIntegration_iff
          [of "[\<lparr>app = daily_video_app, credential = None, credentials = []\<rparr>]" "''daily_video''"]
        hasIntegration_iff
          [of "[\<lparr>app = zoom_video_app, credential = None, credentials = []\<rparr>]" "''zoom_video''"]
        hasIntegration_iff
          [of "[\<lparr>app = zoom_video_app,
                 credential = Some \<lparr>cred_id = 9, cred_type = ''zoom_video''\<rparr>,
                 credentials = [\<lparr>cred_id = 9, cred_type = ''zoom_video''\<rparr>]\<rparr>]" "''zoom_video''"]
  by (simp add: daily_video_app_def zoom_video_app_def)

text \<open>
  C5.  For a name that is a key of the catalog map, \<open>getAppType\<close> returns \<open>Calendar\<close> when
  the entry's type ends with \<open>_calendar\<close>, otherwise \<open>Payment\<close> when it ends with
  \<open>_payment\<close>, otherwise \<open>Unknown\<close>; so an entry of type \<open>google_calendar\<close> is a
  \<open>Calendar\<close>, one of type \<open>stripe_payment\<close> a \<open>Payment\<close>, one of type \<open>zoom_video\<close>
  \<open>Unknown\<close>.
\<close>

theorem getAppType_category:
  assumes "ALL_APPS_MAP name = Some a"
  shows "getAppType ALL_APPS_MAP name =
           Inr (if suffix ''_calendar'' (app_type a) then ''Calendar''
                else if suffix ''_payment'' (app_type a) then ''Payment''
                else ''Unknown'') \<and>
         (app_type a = ''google_calendar'' \<longrightarrow> getAppType ALL_APPS_MAP name = Inr ''Calendar'') \<and>
         (app_type a = ''stripe_payment'' \<longrightarrow> getAppType ALL_APPS_MAP name = Inr ''Payment'') \<and>
         (app_type a = ''zoom_video'' \<longrightarrow> getAppType ALL_APPS_MAP name = Inr ''Unknown'')"
proof -
  have general: "getAppType ALL_APPS_MAP name =
           Inr (if suffix ''_calendar'' (app_type a) then ''Calendar''
                else if suffix ''_payment'' (app_type a) then ''Payment''
                else ''Unknown'')"
    using assms by (simp add: getAppType_def get_property_def str_endsWith_suffix)
  have own: "getAppType ALL_APPS_MAP name =
           (if str_endsWith (app_type a) ''_calendar'' then Inr ''Calendar''
            else if str_endsWith (app_type a) ''_payment'' then Inr ''Payment''
            else Inr ''Unknown'')"
    using assms by (simp add: getAppType_def get_property_def)
  have "app_type a = ''google_calendar'' \<longrightarrow> getAppType ALL_APPS_MAP name = Inr ''Calendar''"
    by (simp add: own str_endsWith_def)
  moreover
  have "app_type a = ''stripe_payment'' \<longrightarrow> getAppType ALL_APPS_MAP name = Inr ''Payment''"
    by (simp add: own str_endsWith_def)
  moreover
  have "app_type a = ''zoom_video'' \<longrightarrow> getAppType ALL_APPS_MAP name = Inr ''Unknown''"
    by (simp add: own str_endsWith_def)
  ultimately show ?thesis using general by blast
qed

theorem getAppType_category_witness:
  "sample_apps_map ''google_calendar'' = Some google_calendar_app \<and>
   getAppType sample_apps_map ''google_calendar'' = Inr ''Calendar'' \<and>
   sample_apps_map ''stripe_payment'' = Some stripe_payment_app \<and>
   getAppType sample_apps_map ''stripe_payment'' = Inr ''Payment'' \<and>
   sample_apps_map ''zoom_video'' = Some zoom_video_app \<and>
   getAppType sample_apps_map ''zoom_video'' = Inr ''Unknown''"
proof -
  have g: "sample_apps_map ''google_calendar'' = Some google_calendar_app"
    by (simp add: sample_apps_map_def)
  have s: "sample_apps_map ''stripe_payment'' = Some stripe_payment_app"
    by (simp add: sample_apps_map_def)
  have z: "sample_apps_map ''zoom_video'' = Some zoom_video_app"
    by (simp add: sample_apps_map_def)
  from getAppType_category
         [of sample_apps_map "''google_calendar''" google_calendar_app, OF g, THEN conjunct2]
       getAppType_category
         [of sample_apps_map "''stripe_payment''" stripe_payment_app, OF s, THEN conjunct2]
       getAppType_category
         [of sample_apps_map "''zoom_video''" zoom_video_app, OF z, THEN conjunct2]
       g s z
  show ?thesis
    by (simp add: google_calendar_app_def stripe_payment_app_def zoom_video_app_def)
qed

text \<open>
  C9, as the claim states it, fails: \<open>constructor\<close> is not a key of the sample catalog
  map, and \<open>getAppName\<close> returns the value \<open>Object\<close> for it; for \<open>__proto__\<close> it returns
  \<open>undefined\<close>.
\<close>

theorem getAppName_inherited_counterexample:
  "sample_apps_map ''constructor'' = None \<and>
   getAppName sample_apps_map ''constructor'' = Inr (Some ''Object'') \<and>
   sample_apps_map ''__proto__'' = None \<and>
   getAppName sample_apps_map ''__proto__'' = Inr None"
  by (simp add: sample_apps_map_def getAppName_def get_property_def Object_prototype_def)

text \<open>
  C9, amended.  For every name that is neither a key of the catalog map nor the name of
  a property inherited from \<open>Object.prototype\<close>, \<open>getAppName\<close> raises a \<open>TypeError\<close>; for
  every name that is a key, it returns the display name of that entry.
\<close>

theorem getAppName_lookup:
  "(ALL_APPS_MAP name = None \<and>
    name \<notin> {''constructor'', ''__defineGetter__'', ''__defineSetter__'', ''hasOwnProperty'',
             ''__lookupGetter__'', ''__lookupSetter__'', ''isPrototypeOf'',
             ''propertyIsEnumerable'', ''toString'', ''valueOf'', ''__proto__'',
             ''toLocaleString''}
      \<longrightarrow> getAppName ALL_APPS_MAP name = Inl TypeError) \<and>
   (\<forall>a. ALL_APPS_MAP name = Some a
      \<longrightarrow> getAppName ALL_APPS_MAP name = Inr (Some (app_name a)))"
proof (intro conjI impI allI)
  assume "ALL_APPS_MAP name = None \<and>
    name \<notin> {''constructor'', ''__defineGetter__'', ''__defineSetter__'', ''hasOwnProperty'',
             ''__lookupGetter__'', ''__lookupSetter__'', ''isPrototypeOf'',
             ''propertyIsEnumerable'', ''toString'', ''valueOf'', ''__proto__'',
             ''toLocaleString''}"
  then have own: "ALL_APPS_MAP name = None"
    and "Object_prototype name = None"
    by (rule conjunct1, rule conjunct2 [THEN Object_prototype_dom [THEN iffD2]])
  then show "getAppName ALL_APPS_MAP name = Inl TypeError"
    by (simp add: getAppName_def get_property_def)
next
  fix a assume "ALL_APPS_MAP name = Some a"
  then show "getAppName ALL_APPS_MAP name = Inr (Some (app_name a))"
    by (simp add: getAppName_def get_property_def)
qed

theorem getAppName_lookup_witness:
  "sample_apps_map ''office365_calendar'' = None \<and>
   getAppName sample_apps_map ''office365_calendar'' = Inl TypeError \<and>
   sample_apps_map ''google_calendar'' = Some google_calendar_app \<and>
   getAppName sample_apps_map ''google_calendar'' = Inr (Some ''Google Calendar'')"
proof -
  have n: "sample_apps_map ''office365_calendar'' = None"
    by (simp add: sample_apps_map_def)
  have g: "sample_apps_map ''google_calendar'' = Some google_calendar_app"
    by (simp add: sample_apps_map_def)
  from getAppName_lookup [of sample_apps_map "''office365_calendar''"]
       getAppName_lookup [of sample_apps_map "''google_calendar''"] n g
  show ?thesis by (simp add: google_calendar_app_def)
qed


section \<open>The loader\<close>

text \<open>
  The run that reaches the end of the loader: a link that is found and not expired, a
  user id that is resolved and not zero, at least one user with that id, and an event
  type.  Three fetches are issued and the props are as the source assembles them.
\<close>

lemma getServerSideProps_props:
  assumes "query_link ctx = QString link"
    and "disposableLink_findUnique db link (query_slug ctx) = Some d"
    and "\<not> expired d"
    and "resolve_userId (Some d) = Some userId"
    and "userId \<noteq> 0"
    and "user_findMany db userId = user # others"
    and "dl_eventType d = eventTypeRaw"
  shows "getServerSideProps ext db ctx =
           ([DisposableLink_findUnique, User_findMany, Credential_findMany],
            Inr (Props
              \<lparr>locationLabels =
                 getLocationLabels ext (case ctx_locale ctx of None \<Rightarrow> ''en'' | Some l \<Rightarrow> l),
               profile = profile_of user,
               eventType =
                 eventTypeObject_of ext eventTypeRaw
                   (credential_findMany db (map user_id (user # others))),
               booking = None,
               trpcState = ssr_dehydrate ext,
               isDynamicGroupBooking = False,
               isDisposableBookingLink = True,
               disposableBookingObject =
                 \<lparr>dbo_slug = query_slug ctx, dbo_link = link\<rparr>\<rparr>))"
  using assms by (simp add: getServerSideProps_def Let_def)

lemma getServerSideProps_web3_flag:
  assumes "query_link ctx = QString link"
    and "disposableLink_findUnique db link (query_slug ctx) = Some d"
    and "\<not> expired d"
    and "resolve_userId (Some d) = Some userId"
    and "userId \<noteq> 0"
    and "user_findMany db userId = user # others"
    and "dl_eventType d = eventTypeRaw"
    and "credential_findMany db (map user_id (user # others)) = creds"
  shows "\<exists>p. props_of (getServerSideProps ext db ctx) = Some p \<and>
             isWeb3Active (eventType p) = web3_flag creds"
  using assms(8)
  by (simp add: getServerSideProps_props [OF assms(1-7)] eventTypeObject_of_def)

lemma find_includes_sublist:
  "List.find (\<lambda>c. str_includes (cred_type c) t) creds =
   List.find (\<lambda>c. sublist t (cred_type c)) creds"
  by (simp add: str_includes_sublist)

text \<open>The loader never sets \<open>booking\<close>: whenever it returns props, \<open>booking\<close> is \<open>null\<close>.\<close>

lemma getServerSideProps_booking_null:
  "props_of (getServerSideProps ext db ctx) = Some p \<Longrightarrow> booking p = None"
  by (auto simp: getServerSideProps_def Let_def
           split: sum.splits if_splits option.splits list.splits)

text \<open>The fetches of the three sample runs that reach the props.\<close>

lemma sample_link_abc123:
  "disposableLink_findUnique sample_db ''abc123'' ''intro'' =
     Some \<lparr>dl_link = ''abc123'', dl_slug = ''intro'', dl_userId = Some 7,
           dl_eventType = sample_eventType 7, expired = False\<rparr>"
  by (simp add: disposableLink_findUnique_def sample_db_def)

lemma sample_link_def456:
  "disposableLink_findUnique sample_db ''def456'' ''demo'' =
     Some \<lparr>dl_link = ''def456'', dl_slug = ''demo'', dl_userId = None,
           dl_eventType = sample_eventType 8, expired = False\<rparr>"
  by (simp add: disposableLink_findUnique_def sample_db_def)

lemma sample_link_ghi789:
  "disposableLink_findUnique sample_db ''ghi789'' ''call'' =
     Some \<lparr>dl_link = ''ghi789'', dl_slug = ''call'', dl_userId = Some 9,
           dl_eventType = sample_eventType 9, expired = False\<rparr>"
  by (simp add: disposableLink_findUnique_def sample_db_def)

lemma sample_users:
  "user_findMany sample_db 7 = [sample_user 7 ''alice'']"
  "user_findMany sample_db 8 = [sample_user 8 ''bob'']"
  "user_findMany sample_db 9 = [sample_user 9 ''carol'']"
  by (simp_all add: user_findMany_def sample_db_def sample_user_def)

lemma sample_user_id: "user_id (sample_user i n) = i"
  by (simp add: sample_user_def)

lemma sample_credentials_7:
  "credential_findMany sample_db [7] =
     [\<lparr>cred_id = 1, cred_type = ''google_calendar'',
       key = JObject [(''access_token'', JString ''secret'')], cr_userId = Some 7\<rparr>] @
     \<lparr>cred_id = 2, cred_type = ''metamask_web3'', key = JNull, cr_userId = Some 7\<rparr> #
     [\<lparr>cred_id = 3, cred_type = ''acme_web3'',
       key = JObject [(''isWeb3Active'', JBool True)], cr_userId = Some 7\<rparr>]"
  by (simp add: credential_findMany_def sample_db_def sample_credentials_def)

lemma sample_credentials_8:
  "credential_findMany sample_db [8] =
     [\<lparr>cred_id = 4, cred_type = ''acme_web3'',
       key = JObject [(''isWeb3Active'', JBool True)], cr_userId = Some 8\<rparr>,
      \<lparr>cred_id = 5, cred_type = ''google_calendar'', key = JNull, cr_userId = Some 8\<rparr>]"
  by (simp add: credential_findMany_def sample_db_def sample_credentials_def)

lemma sample_credentials_9:
  "credential_findMany sample_db [9] =
     [\<lparr>cred_id = 6, cred_type = ''stripe_payment'', key = JNull, cr_userId = Some 9\<rparr>]"
  by (simp add: credential_findMany_def sample_db_def sample_credentials_def)


text \<open>
  C6.  When the lookup of the disposable link by \<open>(link, slug)\<close> finds no record, or a
  record whose \<open>expired\<close> flag is true, the loader returns \<open>{notFound: true}\<close> and the
  lookup is the only fetch it has issued: no user, credential or booking fetch follows.
\<close>

theorem getServerSideProps_absent_or_expired:
  assumes "query_link ctx = QString link"
    and "disposableLink_findUnique db link (query_slug ctx) = None \<or>
         (\<exists>d. disposableLink_findUnique db link (query_slug ctx) = Some d \<and> expired d)"
  shows "getServerSideProps ext db ctx = ([DisposableLink_findUnique], Inr NotFound)"
  using assms
  by (auto simp: getServerSideProps_def Let_def resolve_userId_def)

theorem getServerSideProps_absent_or_expired_witness:
  "disposableLink_findUnique sample_db ''nolink'' ''intro'' = None \<and>
   getServerSideProps sample_ext sample_db (sample_context ''nolink'' ''intro'' QUndefined) =
     ([DisposableLink_findUnique], Inr NotFound) \<and>
   map_option expired (disposableLink_findUnique sample_db ''old000'' ''intro'') = Some True \<and>
   getServerSideProps sample_ext sample_db
       (sample_context ''old000'' ''intro'' (QString ''resched-1'')) =
     ([DisposableLink_findUnique], Inr NotFound)"
proof -
  have absent: "disposableLink_findUnique sample_db ''nolink'' ''intro'' = None"
    by (simp add: disposableLink_findUnique_def sample_db_def)
  have found: "disposableLink_findUnique sample_db ''old000'' ''intro'' =
      Some \<lparr>dl_link = ''old000'', dl_slug = ''intro'', dl_userId = Some 7,
            dl_eventType = sample_eventType 7, expired = True\<rparr>"
    by (simp add: disposableLink_findUnique_def sample_db_def)
  have r1: "getServerSideProps sample_ext sample_db (sample_context ''nolink'' ''intro'' QUndefined) =
     ([DisposableLink_findUnique], Inr NotFound)"
    using absent
    by (intro getServerSideProps_absent_or_expired [where link = "''nolink''"])
       (simp_all add: sample_context_def)
  have r2: "getServerSideProps sample_ext sample_db
       (sample_context ''old000'' ''intro'' (QString ''resched-1'')) =
     ([DisposableLink_findUnique], Inr NotFound)"
    using found
    by (intro getServerSideProps_absent_or_expired [where link = "''old000''"])
       (simp_all add: sample_context_def)
  from absent found r1 r2 show ?thesis by simp
qed



text \<open>
  C1 fails on the code where a reschedule identifier is present.  The request for the
  link \<open>abc123\<close> carries the identifier of a stored booking; \<open>getBooking\<close> would fetch its
  projection, but the loader returns props whose \<open>booking\<close> is \<open>null\<close> and issues no
  booking fetch.
\<close>

theorem getServerSideProps_reschedule_booking_null:
  "getBooking sample_db (sample_context ''abc123'' ''intro'' (QString ''resched-1'')) =
     ([Booking_findFirst],
      Inr (Some \<lparr>description = Some ''Intro call'',
                 attendees = [\<lparr>attendee_email = ''dave@example.com'',
                               attendee_name = ''Dave''\<rparr>]\<rparr>)) \<and>
   map_option booking
     (props_of (getServerSideProps sample_ext sample_db
        (sample_context ''abc123'' ''intro'' (QString ''resched-1'')))) = Some None \<and>
   fst (getServerSideProps sample_ext sample_db
        (sample_context ''abc123'' ''intro'' (QString ''resched-1''))) =
     [DisposableLink_findUnique, User_findMany, Credential_findMany]"
proof -
  have b: "getBooking sample_db (sample_context ''abc123'' ''intro'' (QString ''resched-1'')) =
     ([Booking_findFirst],
      Inr (Some \<lparr>description = Some ''Intro call'',
                 attendees = [\<lparr>attendee_email = ''dave@example.com'',
                               attendee_name = ''Dave''\<rparr>]\<rparr>))"
    by (simp add: getBooking_def booking_findFirst_def sample_db_def sample_context_def)
  have r: "getServerSideProps sample_ext sample_db
        (sample_context ''abc123'' ''intro'' (QString ''resched-1'')) =
       ([DisposableLink_findUnique, User_findMany, Credential_findMany],
        Inr (Props
          \<lparr>locationLabels = getLocationLabels sample_ext ''en'',
           profile = profile_of (sample_user 7 ''alice''),
           eventType =
             eventTypeObject_of sample_ext (sample_eventType 7)
               (credential_findMany sample_db (map user_id [sample_user 7 ''alice''])),
           booking = None,
           trpcState = ssr_dehydrate sample_ext,
           isDynamicGroupBooking = False,
           isDisposableBookingLink = True,
           disposableBookingObject = \<lparr>dbo_slug = ''intro'', dbo_link = ''abc123''\<rparr>\<rparr>))"
    using getServerSideProps_props
            [of "sample_context ''abc123'' ''intro'' (QString ''resched-1'')" "''abc123''"
                sample_db _ 7 "sample_user 7 ''alice''" "[]" "sample_eventType 7" sample_ext]
          sample_link_abc123 sample_users(1)
    by (simp add: sample_context_def resolve_userId_def)
  show ?thesis by (simp add: b r)
qed


text \<open>
  C7, as the claim states it, fails.  The credentials fetched for the link \<open>abc123\<close>
  contain one of type \<open>acme_web3\<close> whose key has \<open>isWeb3Active: true\<close>, and the flag of
  the props is \<open>false\<close>: an earlier credential of type \<open>metamask_web3\<close> has no key.
\<close>

theorem isWeb3Active_later_credential_counterexample:
  "\<lparr>cred_id = 3, cred_type = ''acme_web3'',
     key = JObject [(''isWeb3Active'', JBool True)], cr_userId = Some 7\<rparr>
     \<in> set (credential_findMany sample_db (map user_id (user_findMany sample_db 7))) \<and>
   sublist ''_web3'' ''acme_web3'' \<and>
   member_of (JObject [(''isWeb3Active'', JBool True)]) ''isWeb3Active'' = Some (JBool True) \<and>
   map_option (\<lambda>p. isWeb3Active (eventType p))
     (props_of (getServerSideProps sample_ext sample_db
        (sample_context ''abc123'' ''intro'' QUndefined))) = Some (JBool False)"
proof -
  have r: "getServerSideProps sample_ext sample_db (sample_context ''abc123'' ''intro'' QUndefined) =
       ([DisposableLink_findUnique, User_findMany, Credential_findMany],
        Inr (Props
          \<lparr>locationLabels = getLocationLabels sample_ext ''en'',
           profile = profile_of (sample_user 7 ''alice''),
           eventType =
             eventTypeObject_of sample_ext (sample_eventType 7)
               (credential_findMany sample_db (map user_id [sample_user 7 ''alice''])),
           booking = None,
           trpcState = ssr_dehydrate sample_ext,
           isDynamicGroupBooking = False,
           isDisposableBookingLink = True,
           disposableBookingObject = \<lparr>dbo_slug = ''intro'', dbo_link = ''abc123''\<rparr>\<rparr>))"
    using getServerSideProps_props
            [of "sample_context ''abc123'' ''intro'' QUndefined" "''abc123''"
                sample_db _ 7 "sample_user 7 ''alice''" "[]" "sample_eventType 7" sample_ext]
          sample_link_abc123 sample_users(1)
    by (simp add: sample_context_def resolve_userId_def)
  have flag: "web3_flag (credential_findMany sample_db [7]) = JBool False"
    unfolding sample_credentials_7 by (simp add: web3_flag_def)
  have sub: "sublist ''_web3'' ''acme_web3''"
    unfolding str_includes_sublist [symmetric] by simp
  have fetched: "\<lparr>cred_id = 3, cred_type = ''acme_web3'',
      key = JObject [(''isWeb3Active'', JBool True)], cr_userId = Some 7\<rparr>
     \<in> set (credential_findMany sample_db (map user_id (user_findMany sample_db 7)))"
    by (simp add: sample_users(1) sample_user_id sample_credentials_7)
  have "map_option (\<lambda>p. isWeb3Active (eventType p))
     (props_of (getServerSideProps sample_ext sample_db
        (sample_context ''abc123'' ''intro'' QUndefined))) = Some (JBool False)"
    by (simp add: r eventTypeObject_of_def sample_user_id flag)
  with sub fetched show ?thesis by simp
qed

text \<open>
  C7, amended.  In the props the loader returns, \<open>eventType.isWeb3Active\<close> is true when
  the first fetched credential whose type contains \<open>_web3\<close> has a key payload with
  \<open>isWeb3Active: true\<close>; it is false when no fetched credential's type contains \<open>_web3\<close>,
  and when the key payload of that first credential is absent.
\<close>

theorem isWeb3Active_of_first_web3_credential:
  assumes "query_link ctx = QString link"
    and "disposableLink_findUnique db link (query_slug ctx) = Some d"
    and "\<not> expired d"
    and "resolve_userId (Some d) = Some userId"
    and "userId \<noteq> 0"
    and "user_findMany db userId = user # others"
    and "dl_eventType d = eventTypeRaw"
    and "credential_findMany db (map user_id (user # others)) = creds"
  shows "\<exists>p. props_of (getServerSideProps ext db ctx) = Some p \<and>
           ((\<exists>c. List.find (\<lambda>c. sublist ''_web3'' (cred_type c)) creds = Some c \<and>
                 member_of (key c) ''isWeb3Active'' = Some (JBool True))
              \<longrightarrow> isWeb3Active (eventType p) = JBool True) \<and>
           ((\<forall>c \<in> set creds. \<not> sublist ''_web3'' (cred_type c))
              \<longrightarrow> isWeb3Active (eventType p) = JBool False) \<and>
           ((\<exists>c. List.find (\<lambda>c. sublist ''_web3'' (cred_type c)) creds = Some c \<and>
                 key c = JNull)
              \<longrightarrow> isWeb3Active (eventType p) = JBool False)"
proof -
  from getServerSideProps_web3_flag [OF assms]
  obtain p where p: "props_of (getServerSideProps ext db ctx) = Some p"
    and flag: "isWeb3Active (eventType p) = web3_flag creds"
    by blast
  have on: "isWeb3Active (eventType p) = JBool True"
    if "List.find (\<lambda>c. sublist ''_web3'' (cred_type c)) creds = Some c"
      and "member_of (key c) ''isWeb3Active'' = Some (JBool True)" for c
  proof -
    from that(2) have "truthy (key c)" by (cases "key c") simp_all
    with that show ?thesis
      by (simp add: flag web3_flag_def find_includes_sublist)
  qed
  have none: "isWeb3Active (eventType p) = JBool False"
    if "\<forall>c \<in> set creds. \<not> sublist ''_web3'' (cred_type c)"
  proof -
    from that have "List.find (\<lambda>c. sublist ''_web3'' (cred_type c)) creds = None"
      by (simp add: find_None_iff)
    then show ?thesis by (simp add: flag web3_flag_def find_includes_sublist)
  qed
  have nokey: "isWeb3Active (eventType p) = JBool False"
    if "List.find (\<lambda>c. sublist ''_web3'' (cred_type c)) creds = Some c" and "key c = JNull" for c
    using that by (simp add: flag web3_flag_def find_includes_sublist)
  from p on none nokey show ?thesis by blast
qed

theorem isWeb3Active_of_first_web3_credential_witness:
  "map_option (\<lambda>p. isWeb3Active (eventType p))
     (props_of (getServerSideProps sample_ext sample_db
        (sample_context ''def456'' ''demo'' QUndefined))) = Some (JBool True) \<and>
   map_option (\<lambda>p. isWeb3Active (eventType p))
     (props_of (getServerSideProps sample_ext sample_db
        (sample_context ''ghi789'' ''call'' QUndefined))) = Some (JBool False) \<and>
   map_option (\<lambda>p. isWeb3Active (eventType p))
     (props_of (getServerSideProps sample_ext sample_db
        (sample_context ''abc123'' ''intro'' QUndefined))) = Some (JBool False)"
proof -
  have sub: "sublist ''_web3'' ''acme_web3''" "sublist ''_web3'' ''metamask_web3''"
    "\<not> sublist ''_web3'' ''google_calendar''" "\<not> sublist ''_web3'' ''stripe_payment''"
    unfolding str_includes_sublist [symmetric] by simp_all
  have "\<exists>p. props_of (getServerSideProps sample_ext sample_db
        (sample_context ''def456'' ''demo'' QUndefined)) = Some p \<and>
        isWeb3Active (eventType p) = JBool True"
    using isWeb3Active_of_first_web3_credential
            [where ctx = "sample_context ''def456'' ''demo'' QUndefined"
               and link = "''def456''" and db = sample_db and ext = sample_ext
               and d = "\<lparr>dl_link = ''def456'', dl_slug = ''demo'', dl_userId = None,
                         dl_eventType = sample_eventType 8, expired = False\<rparr>"
               and userId = 8 and user = "sample_user 8 ''bob''" and others = "[]"
               and eventTypeRaw = "sample_eventType 8"
               and creds = "credential_findMany sample_db [8]"]
          sample_link_def456 sample_users(2)
    by (simp add: sample_context_def resolve_userId_def sample_eventType_def sample_user_id
        sample_credentials_8 sub)
  moreover
  have "\<exists>p. props_of (getServerSideProps sample_ext sample_db
        (sample_context ''ghi789'' ''call'' QUndefined)) = Some p \<and>
        isWeb3Active (eventType p) = JBool False"
    using isWeb3Active_of_first_web3_credential
            [where ctx = "sample_context ''ghi789'' ''call'' QUndefined"
               and link = "''ghi789''" and db = sample_db and ext = sample_ext
               and d = "\<lparr>dl_link = ''ghi789'', dl_slug = ''call'', dl_userId = Some 9,
                         dl_eventType = sample_eventType 9, expired = False\<rparr>"
               and userId = 9 and user = "sample_user 9 ''carol''" and others = "[]"
               and eventTypeRaw = "sample_eventType 9"
               and creds = "credential_findMany sample_db [9]"]
          sample_link_ghi789 sample_users(3)
    by (simp add: sample_context_def resolve_userId_def sample_eventType_def sample_user_id
        sample_credentials_9 sub)
  moreover
  have "\<exists>p. props_of (getServerSideProps sample_ext sample_db
        (sample_context ''abc123'' ''intro'' QUndefined)) = Some p \<and>
        isWeb3Active (eventType p) = JBool False"
    using isWeb3Active_of_first_web3_credential
            [where ctx = "sample_context ''abc123'' ''intro'' QUndefined"
               and link = "''abc123''" and db = sample_db and ext = sample_ext
               and d = "\<lparr>dl_link = ''abc123'', dl_slug = ''intro'', dl_userId = Some 7,
                         dl_eventType = sample_eventType 7, expired = False\<rparr>"
               and userId = 7 and user = "sample_user 7 ''alice''" and others = "[]"
               and eventTypeRaw = "sample_eventType 7"
               and creds = "credential_findMany sample_db [7]"]
          sample_link_abc123 sample_users(1)
    by (simp add: sample_context_def resolve_userId_def sample_eventType_def sample_user_id
        sample_credentials_7 sub)
  ultimately show ?thesis by auto
qed

text \<open>
  C10.  The flag is derived from one credential only, the first fetched credential whose
  type contains \<open>_web3\<close>: it is \<open>key.isWeb3Active || false\<close> of that credential when its
  key is truthy and \<open>false\<close> otherwise, whatever the credentials after it are.  So when
  the key of that credential is absent or its \<open>isWeb3Active\<close> is falsy, the flag is false
  even if a later credential of a \<open>_web3\<close> type carries \<open>isWeb3Active: true\<close>.
\<close>

theorem isWeb3Active_ignores_later_credentials:
  assumes "query_link ctx = QString link"
    and "disposableLink_findUnique db link (query_slug ctx) = Some d"
    and "\<not> expired d"
    and "resolve_userId (Some d) = Some userId"
    and "userId \<noteq> 0"
    and "user_findMany db userId = user # others"
    and "dl_eventType d = eventTypeRaw"
    and "credential_findMany db (map user_id (user # others)) = earlier @ c # later"
    and "\<forall>x \<in> set earlier. \<not> sublist ''_web3'' (cred_type x)"
    and "sublist ''_web3'' (cred_type c)"
  shows "\<exists>p. props_of (getServerSideProps ext db ctx) = Some p \<and>
           isWeb3Active (eventType p) =
             (if truthy (key c)
              then (case member_of (key c) ''isWeb3Active'' of
                      None \<Rightarrow> JBool False
                    | Some v \<Rightarrow> if truthy v then v else JBool False)
              else JBool False) \<and>
           (\<not> truthy (key c) \<or>
            (case member_of (key c) ''isWeb3Active'' of None \<Rightarrow> True | Some v \<Rightarrow> \<not> truthy v)
              \<longrightarrow> isWeb3Active (eventType p) = JBool False)"
proof -
  from getServerSideProps_web3_flag [OF assms(1-8)]
  obtain p where p: "props_of (getServerSideProps ext db ctx) = Some p"
    and flag: "isWeb3Active (eventType p) = web3_flag (earlier @ c # later)"
    by blast
  from assms(9) have "\<not> list_ex (\<lambda>x. sublist ''_web3'' (cred_type x)) earlier"
    by (simp add: list_ex_iff)
  with assms(10)
  have first: "List.find (\<lambda>x. sublist ''_web3'' (cred_type x)) (earlier @ c # later) = Some c"
    by (rule find_first_match [where P = "\<lambda>x. sublist ''_web3'' (cred_type x)", rotated])
  have value_of: "isWeb3Active (eventType p) =
             (if truthy (key c)
              then (case member_of (key c) ''isWeb3Active'' of
                      None \<Rightarrow> JBool False
                    | Some v \<Rightarrow> if truthy v then v else JBool False)
              else JBool False)"
    by (simp add: flag web3_flag_def find_includes_sublist first)
  have "isWeb3Active (eventType p) = JBool False"
    if "\<not> truthy (key c) \<or>
        (case member_of (key c) ''isWeb3Active'' of None \<Rightarrow> True | Some v \<Rightarrow> \<not> truthy v)"
    using that by (auto simp: value_of split: option.splits)
  with p value_of show ?thesis by blast
qed

theorem isWeb3Active_ignores_later_credentials_witness:
  "credential_findMany sample_db (map user_id (user_findMany sample_db 7)) =
     [\<lparr>cred_id = 1, cred_type = ''google_calendar'',
       key = JObject [(''access_token'', JString ''secret'')], cr_userId = Some 7\<rparr>] @
     \<lparr>cred_id = 2, cred_type = ''metamask_web3'', key = JNull, cr_userId = Some 7\<rparr> #
     [\<lparr>cred_id = 3, cred_type = ''acme_web3'',
       key = JObject [(''isWeb3Active'', JBool True)], cr_userId = Some 7\<rparr>] \<and>
   map_option (\<lambda>p. isWeb3Active (eventType p))
     (props_of (getServerSideProps sample_ext sample_db
        (sample_context ''abc123'' ''intro'' (QString ''resched-1'')))) = Some (JBool False)"
proof -
  have sub: "sublist ''_web3'' ''metamask_web3''" "\<not> sublist ''_web3'' ''google_calendar''"
    unfolding str_includes_sublist [symmetric] by simp_all
  have "\<exists>p. props_of (getServerSideProps sample_ext sample_db
        (sample_context ''abc123'' ''intro'' (QString ''resched-1''))) = Some p \<and>
        isWeb3Active (eventType p) = JBool False"
    using isWeb3Active_ignores_later_credentials
            [where ctx = "sample_context ''abc123'' ''intro'' (QString ''resched-1'')"
               and link = "''abc123''" and db = sample_db and ext = sample_ext
               and d = "\<lparr>dl_link = ''abc123'', dl_slug = ''intro'', dl_userId = Some 7,
                         dl_eventType = sample_eventType 7, expired = False\<rparr>"
               and userId = 7 and user = "sample_user 7 ''alice''" and others = "[]"
               and eventTypeRaw = "sample_eventType 7"
               and earlier = "[\<lparr>cred_id = 1, cred_type = ''google_calendar'',
                    key = JObject [(''access_token'', JString ''secret'')], cr_userId = Some 7\<rparr>]"
               and c = "\<lparr>cred_id = 2, cred_type = ''metamask_web3'', key = JNull,
                    cr_userId = Some 7\<rparr>"
               and later = "[\<lparr>cred_id = 3, cred_type = ''acme_web3'',
                    key = JObject [(''isWeb3Active'', JBool True)], cr_userId = Some 7\<rparr>]"]
          sample_link_abc123 sample_users(1)
    by (simp add: sample_context_def resolve_userId_def sample_eventType_def sample_user_id
        sample_credentials_7 sub)
  then show ?thesis
    using sample_credentials_7 by (auto simp: sample_users(1) sample_user_id)
qed


end
